theory Spec2Isabelle
  imports Complex_Main "HOL-Library.Signed_Division" "HOL-Library.Word" "HOL-Library.Log_Nat"
begin

section \<open>The weather client of \<^verbatim>\<open>main.go\<close>\<close>

text \<open>
  The program is one Go file. Everything it does to the outside (files, the clock,
  HTTP, the JSON codec of \<^verbatim>\<open>encoding/json\<close>, the order in which the two goroutines
  take the mutex) is an input of the model, gathered in the record \<open>World\<close>; a run
  of \<^verbatim>\<open>main\<close> is a function from a \<open>World\<close> to a \<open>Result\<close> that holds what the run
  printed, how the process ended, the URLs that \<^verbatim>\<open>http.Get\<close> was called with, the slice
  of readings after \<^verbatim>\<open>wg.Wait()\<close>, the final value of the variable \<^verbatim>\<open>cache\<close> and the
  files.

  A \<^verbatim>\<open>float64\<close> is its 64 bits. The float64 operations of lines 101 and 103 (addition,
  conversion of the length, division) are inputs of the model too, as the machine
  performs them; the section on the average relates them to IEEE 754. \<^verbatim>\<open>%.2f\<close> is not
  applied to the value an output line carries.
\<close>

subsection \<open>Data\<close>

text \<open>\<^verbatim>\<open>error\<close>: only \<^verbatim>\<open>os.IsNotExist\<close> ever inspects one.\<close>

datatype error = ErrNotExist | ErrOther string

definition os_IsNotExist :: "error \<Rightarrow> bool" where
  "os_IsNotExist e = (e = ErrNotExist)"

type_synonym float64 = "64 word"

text \<open>\<^verbatim>\<open>WeatherData\<close>, lines 14 to 23; the two anonymous structs get a name.\<close>

record MainBlock =
  Temp :: float64
  Humidity :: int

record WeatherItem =
  Description :: string

record WeatherData =
  Main :: MainBlock
  Weather :: "WeatherItem list"
  Name :: string

text \<open>\<^verbatim>\<open>WeatherData{}\<close>, the zero value that \<^verbatim>\<open>json.Unmarshal\<close> starts from.\<close>

definition zeroWeatherData :: WeatherData where
  "zeroWeatherData = \<lparr>Main = \<lparr>Temp = 0, Humidity = 0\<rparr>, Weather = [], Name = []\<rparr>"

record Config =
  OpenWeatherMapAPIKey :: string
  WeatherAPIKey :: string

text \<open>
  A Go map is \<^verbatim>\<open>nil\<close> or allocated. Reading a nil map finds nothing; assigning to an
  entry of a nil map panics.
\<close>

datatype 'v gomap = NilMap | GoMap "string \<rightharpoonup> 'v"

definition mapIndex :: "'v gomap \<Rightarrow> string \<Rightarrow> 'v option" where
  "mapIndex m k = (case m of NilMap \<Rightarrow> None | GoMap f \<Rightarrow> f k)"

definition mapAssign :: "'v gomap \<Rightarrow> string \<Rightarrow> 'v \<Rightarrow> 'v gomap option" where
  "mapAssign m k v = (case m of NilMap \<Rightarrow> None | GoMap f \<Rightarrow> Some (GoMap (f(k \<mapsto> v))))"

text \<open>\<^verbatim>\<open>Cache\<close>, lines 30 to 33. A \<^verbatim>\<open>time.Time\<close> is its wall clock in nanoseconds.\<close>

record Cache =
  Data :: "WeatherData gomap"
  Timestamp :: int

text \<open>The zero \<^verbatim>\<open>time.Time\<close>: January 1 of year 1, in nanoseconds before 1970.\<close>

definition zeroTime :: int where
  "zeroTime = - 62135596800 * 1000000000"

subsection \<open>Time\<close>

text \<open>
  \<^verbatim>\<open>time.Duration\<close> is an \<^verbatim>\<open>int64\<close> of nanoseconds. \<^verbatim>\<open>Time.Sub\<close> saturates at the
  largest and the smallest duration; \<^verbatim>\<open>time.Since(t)\<close> is \<^verbatim>\<open>time.Now().Sub(t)\<close>, with the
  clock reading as argument here. \<^verbatim>\<open>Duration.Minutes\<close> divides and takes the remainder
  the way Go does on integers, truncating towards zero.
\<close>

definition Minute :: int where
  "Minute = 60 * 1000000000"

definition maxDuration :: int where
  "maxDuration = 2 ^ 63 - 1"

definition minDuration :: int where
  "minDuration = - (2 ^ 63)"

definition time_Sub :: "int \<Rightarrow> int \<Rightarrow> int" where
  "time_Sub t u =
     (let d = t - u
      in if maxDuration < d then maxDuration else if d < minDuration then minDuration else d)"

definition time_Since :: "int \<Rightarrow> int \<Rightarrow> int" where
  "time_Since now t = time_Sub now t"

definition Minutes :: "int \<Rightarrow> real" where
  "Minutes d = real_of_int (d sdiv Minute) + real_of_int (d smod Minute) / (60 * 1000000000)"

subsection \<open>Files\<close>

text \<open>
  A path names no file, a file that cannot be read, or a file with contents.
  \<^verbatim>\<open>ioutil.ReadFile\<close> gives an error that \<^verbatim>\<open>os.IsNotExist\<close> accepts exactly for the first.
  \<^verbatim>\<open>ioutil.WriteFile\<close> is refused or replaces the contents; a refused write is taken
  to leave the file as it was, and a file that was written can be read.
\<close>

datatype fileState = NoFile | Unreadable string | Contents string

definition ioutil_ReadFile :: "(string \<Rightarrow> fileState) \<Rightarrow> string \<Rightarrow> error + string" where
  "ioutil_ReadFile fs filename =
     (case fs filename of
        NoFile \<Rightarrow> Inl ErrNotExist
      | Unreadable msg \<Rightarrow> Inl (ErrOther msg)
      | Contents bytes \<Rightarrow> Inr bytes)"

definition ioutil_WriteFile ::
  "(string \<Rightarrow> fileState) \<Rightarrow> (string \<Rightarrow> error option) \<Rightarrow> string \<Rightarrow> string
     \<Rightarrow> (string \<Rightarrow> fileState) \<times> error option" where
  "ioutil_WriteFile fs refuse filename bytes =
     (case refuse filename of
        Some e \<Rightarrow> (fs, Some e)
      | None \<Rightarrow> (fs(filename := Contents bytes), None))"

text \<open>\<^verbatim>\<open>loadConfig\<close>, lines 121 to 134.\<close>

definition loadConfig ::
  "(string \<Rightarrow> error + Config) \<Rightarrow> (string \<Rightarrow> fileState) \<Rightarrow> string \<Rightarrow> error + Config" where
  "loadConfig unmarshal fs filename =
     (case ioutil_ReadFile fs filename of
        Inl err \<Rightarrow> Inl err
      | Inr bytes \<Rightarrow> (case unmarshal bytes of Inl err \<Rightarrow> Inl err | Inr config \<Rightarrow> Inr config))"

text \<open>
  \<^verbatim>\<open>loadCache\<close>, lines 136 to 152, returns a pointer and an error: the pair
  \<open>(None, None)\<close> is \<^verbatim>\<open>nil, nil\<close>.
\<close>

definition loadCache ::
  "(string \<Rightarrow> error + Cache) \<Rightarrow> (string \<Rightarrow> fileState) \<Rightarrow> string \<Rightarrow> Cache option \<times> error option" where
  "loadCache unmarshal fs filename =
     (case ioutil_ReadFile fs filename of
        Inl err \<Rightarrow> (if os_IsNotExist err then (None, None) else (None, Some err))
      | Inr bytes \<Rightarrow>
          (case unmarshal bytes of
             Inl err \<Rightarrow> (None, Some err)
           | Inr cache \<Rightarrow> (Some cache, None)))"

text \<open>\<^verbatim>\<open>saveCache\<close>, lines 154 to 161: the files afterwards and the error returned.\<close>

definition saveCache ::
  "(Cache \<Rightarrow> error + string) \<Rightarrow> (string \<Rightarrow> fileState) \<Rightarrow> (string \<Rightarrow> error option) \<Rightarrow> string
     \<Rightarrow> Cache \<Rightarrow> (string \<Rightarrow> fileState) \<times> error option" where
  "saveCache marshal fs refuse filename cache =
     (case marshal cache of
        Inl err \<Rightarrow> (fs, Some err)
      | Inr bytes \<Rightarrow> ioutil_WriteFile fs refuse filename bytes)"

subsection \<open>HTTP\<close>

text \<open>
  \<^verbatim>\<open>http.Get\<close> fails, or gives a response with a status code and a body that
  \<^verbatim>\<open>ioutil.ReadAll\<close> reads or fails to read.
\<close>

datatype http_result = GetError error | Response nat "error + string"

text \<open>\<^verbatim>\<open>fetchWeatherData\<close>, lines 173 to 192. The status code is never looked at.\<close>

definition fetchWeatherData ::
  "(string \<Rightarrow> http_result) \<Rightarrow> (string \<Rightarrow> error + WeatherData) \<Rightarrow> string
     \<Rightarrow> error + WeatherData" where
  "fetchWeatherData get unmarshal url =
     (case get url of
        GetError err \<Rightarrow> Inl err
      | Response status body \<Rightarrow>
          (case body of
             Inl err \<Rightarrow> Inl err
           | Inr bytes \<Rightarrow>
               (case unmarshal bytes of
                  Inl err \<Rightarrow> Inl err
                | Inr weatherData \<Rightarrow> Inr weatherData)))"

definition urlOpenWeatherMap :: "string \<Rightarrow> string \<Rightarrow> string" where
  "urlOpenWeatherMap city apiKey =
     ''http://api.openweathermap.org/data/2.5/weather?q='' @ city @ ''&appid='' @ apiKey
       @ ''&units=metric''"

definition urlWeatherAPI :: "string \<Rightarrow> string \<Rightarrow> string" where
  "urlWeatherAPI city apiKey =
     ''http://api.weatherapi.com/v1/current.json?key='' @ apiKey @ ''&q='' @ city @ ''&aqi=no''"

definition getWeatherFromOpenWeatherMap ::
  "(string \<Rightarrow> http_result) \<Rightarrow> (string \<Rightarrow> error + WeatherData) \<Rightarrow> string \<Rightarrow> string
     \<Rightarrow> error + WeatherData" where
  "getWeatherFromOpenWeatherMap get unmarshal city apiKey =
     fetchWeatherData get unmarshal (urlOpenWeatherMap city apiKey)"

definition getWeatherFromWeatherAPI ::
  "(string \<Rightarrow> http_result) \<Rightarrow> (string \<Rightarrow> error + WeatherData) \<Rightarrow> string \<Rightarrow> string
     \<Rightarrow> error + WeatherData" where
  "getWeatherFromWeatherAPI get unmarshal city apiKey =
     fetchWeatherData get unmarshal (urlWeatherAPI city apiKey)"

subsection \<open>The run\<close>

text \<open>
  What a run reads from outside. \<open>sinceNow\<close> is the clock read by \<^verbatim>\<open>time.Since\<close> on
  line 55 and \<open>updateNow\<close> the one read by \<^verbatim>\<open>time.Now\<close> on line 113. \<open>owmFirst\<close> tells
  which goroutine takes the mutex first when both append. The four \<open>marshal\<close> fields are
  \<^verbatim>\<open>json.Unmarshal\<close> at the three types it is used at and \<^verbatim>\<open>json.MarshalIndent\<close> on a
  \<^verbatim>\<open>Cache\<close>. The three \<open>float64\<close> fields are the operator \<^verbatim>\<open>+\<close> of line 101 and the
  conversion \<^verbatim>\<open>float64(n)\<close> and the operator \<^verbatim>\<open>/\<close> of line 103.
\<close>

record World =
  flagCity :: string
  files :: "string \<Rightarrow> fileState"
  refuseWrite :: "string \<Rightarrow> error option"
  sinceNow :: int
  updateNow :: int
  httpGet :: "string \<Rightarrow> http_result"
  owmFirst :: bool
  unmarshalConfig :: "string \<Rightarrow> error + Config"
  unmarshalCache :: "string \<Rightarrow> error + Cache"
  unmarshalWeatherData :: "string \<Rightarrow> error + WeatherData"
  marshalCache :: "Cache \<Rightarrow> error + string"
  float64_add :: "float64 \<Rightarrow> float64 \<Rightarrow> float64"
  float64_of_int :: "int \<Rightarrow> float64"
  float64_div :: "float64 \<Rightarrow> float64 \<Rightarrow> float64"

text \<open>
  The lines the program prints, with the values they are formatted from:
  \<^verbatim>\<open>City name must be specified\<close>, \<^verbatim>\<open>Error loading config: e\<close>, \<^verbatim>\<open>Error loading cache: e\<close>,
  \<^verbatim>\<open>Weather in n (from cache):\<close>, \<^verbatim>\<open>Temperature: t\<close>, \<^verbatim>\<open>Humidity: h\<close>, \<^verbatim>\<open>Description: d\<close>,
  \<^verbatim>\<open>Failed to retrieve weather data\<close>, \<^verbatim>\<open>Average Temperature in n:\<close>,
  \<^verbatim>\<open>Error saving cache: e\<close>.
\<close>

datatype line =
    CityMustBeSpecified
  | ErrorLoadingConfig error
  | ErrorLoadingCache error
  | WeatherFromCache string
  | TemperatureLine float64
  | HumidityLine int
  | DescriptionLine string
  | FailedToRetrieve
  | AverageTemperatureIn string
  | ErrorSavingCache error

text \<open>
  How the process ends: \<^verbatim>\<open>main\<close> returns (exit status 0), \<^verbatim>\<open>os.Exit\<close> is called, or the
  runtime panics.
\<close>

datatype panic = IndexOutOfRange | AssignmentToNilMap

datatype outcome = Return | Exit int | Panic panic

record Result =
  printed :: "line list"
  outcome :: outcome
  netCalls :: "string list"
  collected :: "WeatherData list"
  cacheVar :: "Cache option"
  filesAfter :: "string \<Rightarrow> fileState"

text \<open>
  Lines 55 and 56: the reading found when the cache pointer is not nil, the cache is
  younger than ten minutes and the map has the city.
\<close>

definition cacheHit :: "Cache option \<Rightarrow> int \<Rightarrow> string \<Rightarrow> WeatherData option" where
  "cacheHit cache now city =
     (case cache of
        None \<Rightarrow> None
      | Some c \<Rightarrow>
          if Minutes (time_Since now (Timestamp c)) < 10 then mapIndex (Data c) city else None)"

text \<open>Lines 73 to 77 and 84 to 88: a goroutine appends its reading when \<^verbatim>\<open>err == nil\<close>.\<close>

definition appendIfNoError :: "WeatherData list \<Rightarrow> error + WeatherData \<Rightarrow> WeatherData list" where
  "appendIfNoError weatherDataList r =
     (case r of Inl err \<Rightarrow> weatherDataList | Inr data \<Rightarrow> weatherDataList @ [data])"

text \<open>
  Lines 65 to 91. Both goroutines always run; the slice after \<^verbatim>\<open>wg.Wait()\<close> depends
  on which of them appended first.
\<close>

definition forkJoin :: "bool \<Rightarrow> error + WeatherData \<Rightarrow> error + WeatherData \<Rightarrow> WeatherData list" where
  "forkJoin first r1 r2 =
     (if first then appendIfNoError (appendIfNoError [] r1) r2
      else appendIfNoError (appendIfNoError [] r2) r1)"

text \<open>
  Lines 99 to 103. \<^verbatim>\<open>totalTemp\<close> starts as the zero \<^verbatim>\<open>float64\<close>, whose bits are all 0.
\<close>

definition avgTemp :: "World \<Rightarrow> WeatherData list \<Rightarrow> float64" where
  "avgTemp w weatherDataList =
     float64_div w
       (foldl (\<lambda>totalTemp data. float64_add w totalTemp (Temp (Main data))) 0 weatherDataList)
       (float64_of_int w (int (length weatherDataList)))"

definition errorLine :: "(error \<Rightarrow> line) \<Rightarrow> error option \<Rightarrow> line list" where
  "errorLine f err = (case err of None \<Rightarrow> [] | Some e \<Rightarrow> [f e])"

text \<open>Lines 65 to 117, entered when the cache did not answer.\<close>

definition fetchAndReport :: "World \<Rightarrow> Config \<Rightarrow> Cache option \<Rightarrow> line list \<Rightarrow> Result" where
  "fetchAndReport w config cache out =
     (let city = flagCity w;
          r1 = getWeatherFromOpenWeatherMap (httpGet w) (unmarshalWeatherData w) city
                 (OpenWeatherMapAPIKey config);
          r2 = getWeatherFromWeatherAPI (httpGet w) (unmarshalWeatherData w) city
                 (WeatherAPIKey config);
          calls = [urlOpenWeatherMap city (OpenWeatherMapAPIKey config),
                   urlWeatherAPI city (WeatherAPIKey config)];
          weatherDataList = forkJoin (owmFirst w) r1 r2
      in if length weatherDataList = 0 then
           \<lparr>printed = out @ [FailedToRetrieve], outcome = Exit 1, netCalls = calls,
            collected = weatherDataList, cacheVar = cache, filesAfter = files w\<rparr>
         else
           let out2 = out @ [AverageTemperatureIn (Name (weatherDataList ! 0)),
                             TemperatureLine (avgTemp w weatherDataList)];
               cache1 = (case cache of
                           None \<Rightarrow> \<lparr>Data = GoMap Map.empty, Timestamp = zeroTime\<rparr>
                         | Some c \<Rightarrow> c)
           in case mapAssign (Data cache1) city (weatherDataList ! 0) of
                None \<Rightarrow>
                  \<lparr>printed = out2, outcome = Panic AssignmentToNilMap, netCalls = calls,
                   collected = weatherDataList, cacheVar = Some cache1, filesAfter = files w\<rparr>
              | Some m \<Rightarrow>
                  let cache2 = cache1\<lparr>Data := m, Timestamp := updateNow w\<rparr>;
                      (fs, err) = saveCache (marshalCache w) (files w) (refuseWrite w)
                                    ''cache.json'' cache2
                  in \<lparr>printed = out2 @ errorLine ErrorSavingCache err, outcome = Return,
                      netCalls = calls, collected = weatherDataList, cacheVar = Some cache2,
                      filesAfter = fs\<rparr>)"

text \<open>Lines 57 to 61: the cache answers; \<^verbatim>\<open>Weather[0]\<close> panics on an empty slice.\<close>

definition reportFromCache :: "World \<Rightarrow> Cache option \<Rightarrow> line list \<Rightarrow> WeatherData \<Rightarrow> Result" where
  "reportFromCache w cache out weatherData =
     (let out2 = out @ [WeatherFromCache (Name weatherData),
                        TemperatureLine (Temp (Main weatherData)),
                        HumidityLine (Humidity (Main weatherData))]
      in case Weather weatherData of
           [] \<Rightarrow>
             \<lparr>printed = out2, outcome = Panic IndexOutOfRange, netCalls = [], collected = [],
              cacheVar = cache, filesAfter = files w\<rparr>
         | first # rest \<Rightarrow>
             \<lparr>printed = out2 @ [DescriptionLine (Description first)], outcome = Return,
              netCalls = [], collected = [], cacheVar = cache, filesAfter = files w\<rparr>)"

text \<open>\<^verbatim>\<open>main\<close>, lines 35 to 118.\<close>

definition main :: "World \<Rightarrow> Result" where
  "main w =
     (let city = flagCity w
      in if city = [] then
           \<lparr>printed = [CityMustBeSpecified], outcome = Exit 1, netCalls = [], collected = [],
            cacheVar = None, filesAfter = files w\<rparr>
         else
           case loadConfig (unmarshalConfig w) (files w) ''config.json'' of
             Inl err \<Rightarrow>
               \<lparr>printed = [ErrorLoadingConfig err], outcome = Exit 1, netCalls = [],
                collected = [], cacheVar = None, filesAfter = files w\<rparr>
           | Inr config \<Rightarrow>
               let (cache, err) = loadCache (unmarshalCache w) (files w) ''cache.json'';
                   out = errorLine ErrorLoadingCache err
               in case cacheHit cache (sinceNow w) city of
                    Some weatherData \<Rightarrow> reportFromCache w cache out weatherData
                  | None \<Rightarrow> fetchAndReport w config cache out)"

subsection \<open>Observations of a run\<close>

text \<open>
  Names for what \<^verbatim>\<open>main\<close> computes on its way: the results of lines 44 and 50, of the
  two provider calls on lines 72 and 83, and of the test on lines 55 and 56.
\<close>

definition loadedConfig :: "World \<Rightarrow> error + Config" where
  "loadedConfig w = loadConfig (unmarshalConfig w) (files w) ''config.json''"

definition loadedCache :: "World \<Rightarrow> Cache option \<times> error option" where
  "loadedCache w = loadCache (unmarshalCache w) (files w) ''cache.json''"

definition owmResult :: "World \<Rightarrow> Config \<Rightarrow> error + WeatherData" where
  "owmResult w config =
     getWeatherFromOpenWeatherMap (httpGet w) (unmarshalWeatherData w) (flagCity w)
       (OpenWeatherMapAPIKey config)"

definition wapiResult :: "World \<Rightarrow> Config \<Rightarrow> error + WeatherData" where
  "wapiResult w config =
     getWeatherFromWeatherAPI (httpGet w) (unmarshalWeatherData w) (flagCity w)
       (WeatherAPIKey config)"

definition answersFromCache :: "World \<Rightarrow> WeatherData option" where
  "answersFromCache w = cacheHit (fst (loadedCache w)) (sinceNow w) (flagCity w)"

text \<open>
  The map that line 112 assigns into: the loaded cache's, or the map made on line 110
  when no cache was loaded.
\<close>

definition entriesBefore :: "Cache option \<Rightarrow> WeatherData gomap" where
  "entriesBefore cache = (case cache of None \<Rightarrow> GoMap Map.empty | Some c \<Rightarrow> Data c)"

subsection \<open>IEEE 754 binary64\<close>

text \<open>
  What IEEE 754 prescribes for the three \<^verbatim>\<open>float64\<close> operations of lines 101 and 103,
  with rounding to nearest, ties to even, as Go specifies. It is used to state what the
  average is on a machine whose arithmetic is IEEE 754 (\<open>ieee_steps\<close> below); \<open>main\<close>
  itself takes the operations from the \<open>World\<close>.

  A value is \<open>Finite sign m e\<close>, the number \<open>m * 2^e\<close> with its sign, an infinity or
  not a number (all bit patterns that are no number are one value here: the program
  only prints them). The values of the format are those with \<open>m < 2^53\<close>,
  \<open>- 1074 \<le> e \<le> 971\<close> and \<open>2^52 \<le> m\<close> unless \<open>e = - 1074\<close>.
\<close>

datatype ieee = Finite bool int int | Infinity bool | NaN

definition ieee_valid :: "ieee \<Rightarrow> bool" where
  "ieee_valid v =
     (case v of
        Finite sign m e \<Rightarrow>
          0 \<le> m \<and> m < 2 ^ 53 \<and> - 1074 \<le> e \<and> e \<le> 971 \<and> (2 ^ 52 \<le> m \<or> e = - 1074)
      | Infinity sign \<Rightarrow> True
      | NaN \<Rightarrow> True)"

text \<open>The value that 64 bits stand for.\<close>

definition float64_decode :: "float64 \<Rightarrow> ieee" where
  "float64_decode x =
     (let n = uint x; sign = (2 ^ 63 \<le> n); E = (n div 2 ^ 52) mod 2 ^ 11; F = n mod 2 ^ 52
      in if E = 2047 then (if F = 0 then Infinity sign else NaN)
         else if E = 0 then Finite sign F (- 1074)
         else Finite sign (2 ^ 52 + F) (E - 1075))"

text \<open>The real number that a value is, if it is one.\<close>

definition ieee_value :: "ieee \<Rightarrow> real option" where
  "ieee_value v =
     (case v of
        Finite sign m e \<Rightarrow>
          Some (real_of_int (if sign then - m else m)
                * (if 0 \<le> e then 2 ^ nat e else 1 / 2 ^ nat (- e)))
      | Infinity sign \<Rightarrow> None
      | NaN \<Rightarrow> None)"

text \<open>
  \<open>roundHalfEven M k sticky\<close> drops the \<open>k\<close> low bits of \<open>M\<close> and rounds to nearest,
  ties to even; \<open>sticky\<close> tells that the exact number has a non-zero part below the
  last bit of \<open>M\<close>.
\<close>

definition roundHalfEven :: "int \<Rightarrow> nat \<Rightarrow> bool \<Rightarrow> int" where
  "roundHalfEven M k sticky =
     (let q = M div 2 ^ k; r = M mod 2 ^ k; half = 2 ^ (k - 1)
      in if half < r \<or> (r = half \<and> (sticky \<or> odd q)) then q + 1 else q)"

text \<open>
  \<open>ieee_round sign M sticky e\<close> is the value of the format nearest to \<open>M * 2^e\<close> (plus
  the part that \<open>sticky\<close> stands for; then \<open>M\<close> has at least 55 bits): 53 bits are
  kept, fewer below the smallest exponent, and a result beyond the largest exponent
  is an infinity.
\<close>

definition ieee_round :: "bool \<Rightarrow> int \<Rightarrow> bool \<Rightarrow> int \<Rightarrow> ieee" where
  "ieee_round sign M sticky e =
     (let k = max (bitlen M - 53) (- 1074 - e)
      in if M = 0 then Finite sign 0 (- 1074)
         else if k \<le> 0 then
           let up = min (53 - bitlen M) (e + 1074)
           in if 971 < e - up then Infinity sign else Finite sign (M * 2 ^ nat up) (e - up)
         else
           let q = roundHalfEven M (nat k) sticky
           in if q = 2 ^ 53 then (if 971 < e + k + 1 then Infinity sign
                                  else Finite sign (2 ^ 52) (e + k + 1))
              else if 971 < e + k then Infinity sign
              else Finite sign q (e + k))"

fun ieee_add :: "ieee \<Rightarrow> ieee \<Rightarrow> ieee" where
  "ieee_add NaN y = NaN"
| "ieee_add x NaN = NaN"
| "ieee_add (Infinity s1) (Infinity s2) = (if s1 = s2 then Infinity s1 else NaN)"
| "ieee_add (Infinity s1) (Finite s2 m2 e2) = Infinity s1"
| "ieee_add (Finite s1 m1 e1) (Infinity s2) = Infinity s2"
| "ieee_add (Finite s1 m1 e1) (Finite s2 m2 e2) =
     (let e = min e1 e2;
          a = (if s1 then - m1 else m1) * 2 ^ nat (e1 - e);
          b = (if s2 then - m2 else m2) * 2 ^ nat (e2 - e);
          t = a + b
      in if t = 0 then Finite (s1 \<and> s2) 0 (- 1074)
         else ieee_round (t < 0) \<bar>t\<bar> False e)"

fun ieee_div :: "ieee \<Rightarrow> ieee \<Rightarrow> ieee" where
  "ieee_div NaN y = NaN"
| "ieee_div x NaN = NaN"
| "ieee_div (Infinity s1) (Infinity s2) = NaN"
| "ieee_div (Infinity s1) (Finite s2 m2 e2) = Infinity (s1 \<noteq> s2)"
| "ieee_div (Finite s1 m1 e1) (Infinity s2) = Finite (s1 \<noteq> s2) 0 (- 1074)"
| "ieee_div (Finite s1 m1 e1) (Finite s2 m2 e2) =
     (if m2 = 0 then (if m1 = 0 then NaN else Infinity (s1 \<noteq> s2))
      else if m1 = 0 then Finite (s1 \<noteq> s2) 0 (- 1074)
      else
        let k = nat (max 0 (55 + bitlen m2 - bitlen m1));
            n = m1 * 2 ^ k
        in ieee_round (s1 \<noteq> s2) (n div m2) (n mod m2 \<noteq> 0) (e1 - e2 - int k))"

definition ieee_of_int :: "int \<Rightarrow> ieee" where
  "ieee_of_int n = ieee_round (n < 0) \<bar>n\<bar> False 0"

text \<open>Lines 99 to 103 in IEEE 754 arithmetic.\<close>

definition ieee_avg :: "ieee list \<Rightarrow> ieee" where
  "ieee_avg temps =
     ieee_div (foldl ieee_add (Finite False 0 (- 1074)) temps) (ieee_of_int (int (length temps)))"

text \<open>
  The operations of the \<open>World\<close> give what IEEE 754 prescribes at every step of
  \<open>avgTemp\<close> on the readings: at each addition of the loop, starting from the total so
  far, at the conversion of their number and at the division.
\<close>

fun ieee_sum_steps :: "World \<Rightarrow> float64 \<Rightarrow> WeatherData list \<Rightarrow> bool" where
  "ieee_sum_steps w totalTemp [] = True"
| "ieee_sum_steps w totalTemp (data # rest) =
     (float64_decode (float64_add w totalTemp (Temp (Main data)))
        = ieee_add (float64_decode totalTemp) (float64_decode (Temp (Main data)))
      \<and> ieee_sum_steps w (float64_add w totalTemp (Temp (Main data))) rest)"

definition ieee_steps :: "World \<Rightarrow> WeatherData list \<Rightarrow> bool" where
  "ieee_steps w weatherDataList =
     (let totalTemp =
            foldl (\<lambda>totalTemp data. float64_add w totalTemp (Temp (Main data))) 0 weatherDataList;
          n = float64_of_int w (int (length weatherDataList))
      in ieee_sum_steps w 0 weatherDataList
         \<and> float64_decode n = ieee_of_int (int (length weatherDataList))
         \<and> float64_decode (float64_div w totalTemp n)
             = ieee_div (float64_decode totalTemp) (float64_decode n))"

subsection \<open>Example runs\<close>

text \<open>
  The worlds below are concrete inputs. Their decoders are \<^verbatim>\<open>json.Unmarshal\<close> on the
  texts that occur in them and reject every other text. \<^verbatim>\<open>json.Unmarshal\<close> ignores the
  keys of an object that the target struct does not have and leaves the fields without
  a key at their zero value: the answer of the second provider, which has none of the
  keys \<^verbatim>\<open>main\<close>, \<^verbatim>\<open>weather\<close> and \<^verbatim>\<open>name\<close>, and the provider's answer to a bad key decode to
  \<^verbatim>\<open>WeatherData{}\<close> without error.
\<close>

definition configText :: string where
  \<open>configText = ''{"openweathermap_api_key":"owm-key","weatherapi_api_key":"wapi-key"}''\<close>

definition exampleConfig :: Config where
  "exampleConfig = \<lparr>OpenWeatherMapAPIKey = ''owm-key'', WeatherAPIKey = ''wapi-key''\<rparr>"

text \<open>
  The \<^verbatim>\<open>float64\<close> values of the example runs, as bits: sign, eleven bits of exponent
  (biased by 1023) and fifty-two bits of fraction. 1 is \<open>1.0 * 2^0\<close>, 2 is \<open>1.0 * 2^1\<close>,
  7.5 is \<open>1.875 * 2^2\<close>, 10 is \<open>1.25 * 2^3\<close>, 15 is \<open>1.875 * 2^3\<close>, 20 is \<open>1.25 * 2^4\<close>
  and 30 is \<open>1.875 * 2^4\<close>.
\<close>

definition float64_1 :: float64 where
  "float64_1 = 0x3FF0000000000000"

definition float64_2 :: float64 where
  "float64_2 = 0x4000000000000000"

definition float64_7_5 :: float64 where
  "float64_7_5 = 0x401E000000000000"

definition float64_10 :: float64 where
  "float64_10 = 0x4024000000000000"

definition float64_15 :: float64 where
  "float64_15 = 0x402E000000000000"

definition float64_20 :: float64 where
  "float64_20 = 0x4034000000000000"

definition float64_30 :: float64 where
  "float64_30 = 0x403E000000000000"

definition float64_NaN :: float64 where
  "float64_NaN = 0x7FF8000000000000"

text \<open>
  The arithmetic of the example runs: tables that give the IEEE 754 result for the
  arguments that occur in these runs (0 + 0, 0 + 10, 10 + 20, 0 / 1, 10 / 1, 30 / 2 and
  the conversions of 1 and 2). No other argument occurs.
\<close>

definition exampleAdd :: "float64 \<Rightarrow> float64 \<Rightarrow> float64" where
  "exampleAdd a b =
     (if a = 0 \<and> b = 0 then 0
      else if a = 0 \<and> b = float64_10 then float64_10
      else if a = float64_10 \<and> b = float64_20 then float64_30
      else float64_NaN)"

definition exampleOfInt :: "int \<Rightarrow> float64" where
  "exampleOfInt n = (if n = 1 then float64_1 else if n = 2 then float64_2 else float64_NaN)"

definition exampleDiv :: "float64 \<Rightarrow> float64 \<Rightarrow> float64" where
  "exampleDiv a b =
     (if a = 0 \<and> b = float64_1 then 0
      else if a = float64_10 \<and> b = float64_1 then float64_10
      else if a = float64_30 \<and> b = float64_2 then float64_15
      else float64_NaN)"

definition owmBody :: string where
  \<open>owmBody = ''{"main":{"temp":10,"humidity":80},"weather":[{"description":"light rain"}],"name":"London"}''\<close>

definition rainReading :: WeatherData where
  "rainReading =
     \<lparr>Main = \<lparr>Temp = float64_10, Humidity = 80\<rparr>, Weather = [\<lparr>Description = ''light rain''\<rparr>],
      Name = ''London''\<rparr>"

definition clearBody :: string where
  \<open>clearBody = ''{"main":{"temp":20,"humidity":60},"weather":[{"description":"clear sky"}],"name":"London"}''\<close>

definition clearReading :: WeatherData where
  "clearReading =
     \<lparr>Main = \<lparr>Temp = float64_20, Humidity = 60\<rparr>, Weather = [\<lparr>Description = ''clear sky''\<rparr>],
      Name = ''London''\<rparr>"

definition wapiBody :: string where
  \<open>wapiBody = ''{"location":{"name":"London"},"current":{"temp_c":20,"humidity":60}}''\<close>

definition unauthorizedBody :: string where
  \<open>unauthorizedBody = ''{"cod":401,"message":"Invalid API key"}''\<close>

definition exampleUnmarshalWeatherData :: "string \<Rightarrow> error + WeatherData" where
  "exampleUnmarshalWeatherData bytes =
     (if bytes = owmBody then Inr rainReading
      else if bytes = clearBody then Inr clearReading
      else if bytes = wapiBody then Inr zeroWeatherData
      else if bytes = unauthorizedBody then Inr zeroWeatherData
      else Inl (ErrOther ''invalid character''))"

text \<open>May 1, 2024, 12:00:00 UTC, and one minute in nanoseconds.\<close>

definition noon :: int where
  "noon = 1714564800 * 1000000000"

text \<open>
  London is asked for; there is a configuration file and no cache file; both
  providers are unreachable.
\<close>

definition offlineWorld :: World where
  "offlineWorld =
     \<lparr>flagCity = ''London'',
      files = (\<lambda>filename. if filename = ''config.json'' then Contents configText else NoFile),
      refuseWrite = (\<lambda>filename. None),
      sinceNow = noon,
      updateNow = noon + 2 * Minute,
      httpGet = (\<lambda>url. GetError (ErrOther ''no such host'')),
      owmFirst = True,
      unmarshalConfig =
        (\<lambda>bytes. if bytes = configText then Inr exampleConfig
                   else Inl (ErrOther ''invalid character'')),
      unmarshalCache = (\<lambda>bytes. Inl (ErrOther ''invalid character'')),
      unmarshalWeatherData = exampleUnmarshalWeatherData,
      marshalCache = (\<lambda>cache. Inl (ErrOther ''unsupported value'')),
      float64_add = exampleAdd,
      float64_of_int = exampleOfInt,
      float64_div = exampleDiv\<rparr>"

text \<open>The cache file exists and holds text that is not JSON.\<close>

definition brokenCacheWorld :: World where
  "brokenCacheWorld =
     offlineWorld\<lparr>files :=
       (\<lambda>filename. if filename = ''config.json'' then Contents configText
                    else if filename = ''cache.json'' then Contents ''not json''
                    else NoFile)\<rparr>"

text \<open>
  Cache files (written here without the indentation of \<^verbatim>\<open>json.MarshalIndent\<close>) and the
  caches they decode to. The third is written by hand: its entry has an empty
  \<^verbatim>\<open>weather\<close> array. The empty object decodes to the zero \<^verbatim>\<open>Cache\<close>, whose map is nil.
\<close>

definition rainCacheText :: string where
  \<open>rainCacheText = ''{"data":{"London":{"main":{"temp":10,"humidity":80},"weather":[{"description":"light rain"}],"name":"London"}},"timestamp":"2024-05-01T12:02:00Z"}''\<close>

definition rainCache :: Cache where
  "rainCache = \<lparr>Data = GoMap [''London'' \<mapsto> rainReading], Timestamp = noon + 2 * Minute\<rparr>"

definition zeroCacheText :: string where
  \<open>zeroCacheText = ''{"data":{"London":{"main":{"temp":0,"humidity":0},"weather":null,"name":""}},"timestamp":"2024-05-01T12:02:00Z"}''\<close>

definition zeroCache :: Cache where
  "zeroCache = \<lparr>Data = GoMap [''London'' \<mapsto> zeroWeatherData], Timestamp = noon + 2 * Minute\<rparr>"

definition emptyWeatherCacheText :: string where
  \<open>emptyWeatherCacheText = ''{"data":{"London":{"main":{"temp":7.5,"humidity":81},"weather":[],"name":"London"}},"timestamp":"2024-05-01T12:00:00Z"}''\<close>

definition emptyWeatherReading :: WeatherData where
  "emptyWeatherReading =
     \<lparr>Main = \<lparr>Temp = float64_7_5, Humidity = 81\<rparr>, Weather = [], Name = ''London''\<rparr>"

definition emptyWeatherCache :: Cache where
  "emptyWeatherCache = \<lparr>Data = GoMap [''London'' \<mapsto> emptyWeatherReading], Timestamp = noon\<rparr>"

definition exampleUnmarshalCache :: "string \<Rightarrow> error + Cache" where
  "exampleUnmarshalCache bytes =
     (if bytes = rainCacheText then Inr rainCache
      else if bytes = zeroCacheText then Inr zeroCache
      else if bytes = emptyWeatherCacheText then Inr emptyWeatherCache
      else if bytes = ''{}'' then Inr \<lparr>Data = NilMap, Timestamp = zeroTime\<rparr>
      else Inl (ErrOther ''invalid character''))"

definition exampleMarshalCache :: "Cache \<Rightarrow> error + string" where
  "exampleMarshalCache cache =
     (if Timestamp cache = noon + 2 * Minute
         \<and> mapIndex (Data cache) ''London'' = Some rainReading then Inr rainCacheText
      else if Timestamp cache = noon + 2 * Minute
         \<and> mapIndex (Data cache) ''London'' = Some zeroWeatherData then Inr zeroCacheText
      else Inl (ErrOther ''unsupported value''))"

definition onlineWorld :: "(string \<Rightarrow> http_result) \<Rightarrow> World" where
  "onlineWorld get =
     offlineWorld\<lparr>httpGet := get, unmarshalCache := exampleUnmarshalCache,
                  marshalCache := exampleMarshalCache\<rparr>"

text \<open>Only the first provider answers.\<close>

definition firstProviderWorld :: World where
  "firstProviderWorld =
     onlineWorld (\<lambda>url. if url = urlOpenWeatherMap ''London'' ''owm-key''
                         then Response 200 (Inr owmBody)
                         else GetError (ErrOther ''no such host''))"

text \<open>Only the second provider answers, in its own format.\<close>

definition secondProviderWorld :: World where
  "secondProviderWorld =
     onlineWorld (\<lambda>url. if url = urlWeatherAPI ''London'' ''wapi-key''
                         then Response 200 (Inr wapiBody)
                         else GetError (ErrOther ''no such host''))"

text \<open>
  Both answer with a reading in the first provider's format, of 10 and of 20
  degrees.
\<close>

definition twoReadingsWorld :: World where
  "twoReadingsWorld =
     onlineWorld (\<lambda>url. if url = urlOpenWeatherMap ''London'' ''owm-key''
                         then Response 200 (Inr owmBody)
                         else if url = urlWeatherAPI ''London'' ''wapi-key''
                         then Response 200 (Inr clearBody)
                         else GetError (ErrOther ''no such host''))"

text \<open>The first provider rejects the key with status 401; the second is unreachable.\<close>

definition unauthorizedWorld :: World where
  "unauthorizedWorld =
     onlineWorld (\<lambda>url. if url = urlOpenWeatherMap ''London'' ''owm-key''
                         then Response 401 (Inr unauthorizedBody)
                         else GetError (ErrOther ''no such host''))"

text \<open>A run with a given cache file, a given number of minutes after noon.\<close>

definition cachedWorld :: "string \<Rightarrow> int \<Rightarrow> World" where
  "cachedWorld cacheText minutes =
     (onlineWorld (\<lambda>url. GetError (ErrOther ''no such host'')))
       \<lparr>files :=
          (\<lambda>filename. if filename = ''config.json'' then Contents configText
                       else if filename = ''cache.json'' then Contents cacheText
                       else NoFile),
        sinceNow := noon + minutes * Minute\<rparr>"

text \<open>Only the first provider answers, and the cache file holds the empty object.\<close>

definition emptyObjectCacheWorld :: World where
  "emptyObjectCacheWorld =
     firstProviderWorld\<lparr>files :=
       (\<lambda>filename. if filename = ''config.json'' then Contents configText
                    else if filename = ''cache.json'' then Contents ''{}''
                    else NoFile)\<rparr>"

text \<open>
  A run five minutes after noon on the files that the run of \<open>secondProviderWorld\<close>
  left.
\<close>

definition secondRunWorld :: World where
  "secondRunWorld =
     secondProviderWorld\<lparr>files := filesAfter (main secondProviderWorld),
                          sinceNow := noon + 5 * Minute\<rparr>"

text \<open>
  Both providers answer with a reading of 1e308 degrees in the first provider's
  format. The nearest \<^verbatim>\<open>float64\<close> is \<open>0x11CCF385EBC8A0 * 2^971\<close>; its double is beyond the
  largest \<^verbatim>\<open>float64\<close>, so the sum is the positive infinity, and so is its half. The
  tables give the IEEE 754 results for the arguments that occur (0 + 1e308,
  1e308 + 1e308 and infinity / 2).
\<close>

definition float64_1e308 :: float64 where
  "float64_1e308 = 0x7FE1CCF385EBC8A0"

definition float64_inf :: float64 where
  "float64_inf = 0x7FF0000000000000"

definition hugeBody :: string where
  \<open>hugeBody = ''{"main":{"temp":1e308,"humidity":0},"weather":[{"description":"hot"}],"name":"London"}''\<close>

definition hugeReading :: WeatherData where
  "hugeReading =
     \<lparr>Main = \<lparr>Temp = float64_1e308, Humidity = 0\<rparr>, Weather = [\<lparr>Description = ''hot''\<rparr>],
      Name = ''London''\<rparr>"

definition hugeCacheText :: string where
  \<open>hugeCacheText = ''{"data":{"London":{"main":{"temp":1e+308,"humidity":0},"weather":[{"description":"hot"}],"name":"London"}},"timestamp":"2024-05-01T12:02:00Z"}''\<close>

definition hugeAdd :: "float64 \<Rightarrow> float64 \<Rightarrow> float64" where
  "hugeAdd a b =
     (if a = 0 \<and> b = float64_1e308 then float64_1e308
      else if a = float64_1e308 \<and> b = float64_1e308 then float64_inf
      else float64_NaN)"

definition hugeDiv :: "float64 \<Rightarrow> float64 \<Rightarrow> float64" where
  "hugeDiv a b = (if a = float64_inf \<and> b = float64_2 then float64_inf else float64_NaN)"

definition overflowWorld :: World where
  "overflowWorld =
     (onlineWorld (\<lambda>url. if url = urlOpenWeatherMap ''London'' ''owm-key''
                             \<or> url = urlWeatherAPI ''London'' ''wapi-key''
                          then Response 200 (Inr hugeBody)
                          else GetError (ErrOther ''no such host'')))
       \<lparr>unmarshalWeatherData :=
          (\<lambda>bytes. if bytes = hugeBody then Inr hugeReading
                    else Inl (ErrOther ''invalid character'')),
        marshalCache :=
          (\<lambda>cache. if Timestamp cache = noon + 2 * Minute
                        \<and> mapIndex (Data cache) ''London'' = Some hugeReading
                     then Inr hugeCacheText
                     else Inl (ErrOther ''unsupported value'')),
        float64_add := hugeAdd,
        float64_div := hugeDiv\<rparr>"








section \<open>Properties\<close>

subsection \<open>Unfolding the model\<close>

lemmas model_defs = main_def Let_def loadConfig_def loadCache_def saveCache_def
  ioutil_ReadFile_def ioutil_WriteFile_def os_IsNotExist_def cacheHit_def mapIndex_def
  mapAssign_def fetchAndReport_def reportFromCache_def forkJoin_def appendIfNoError_def
  avgTemp_def errorLine_def getWeatherFromOpenWeatherMap_def getWeatherFromWeatherAPI_def
  fetchWeatherData_def urlOpenWeatherMap_def urlWeatherAPI_def loadedConfig_def
  loadedCache_def owmResult_def wapiResult_def answersFromCache_def entriesBefore_def

lemmas world_defs = offlineWorld_def onlineWorld_def firstProviderWorld_def
  twoReadingsWorld_def cachedWorld_def
  exampleUnmarshalWeatherData_def exampleUnmarshalCache_def exampleMarshalCache_def configText_def exampleConfig_def owmBody_def clearBody_def
  wapiBody_def unauthorizedBody_def rainCacheText_def zeroCacheText_def
  emptyWeatherCacheText_def rainCache_def zeroCache_def emptyWeatherCache_def noon_def
  Minute_def rainReading_def clearReading_def zeroWeatherData_def emptyWeatherReading_def
  exampleAdd_def exampleOfInt_def exampleDiv_def float64_1_def float64_2_def float64_7_5_def
  float64_10_def float64_15_def float64_20_def float64_30_def float64_NaN_def

subsection \<open>Freshness\<close>

lemma Minutes_less_10: "Minutes d < 10 \<longleftrightarrow> d < 600000000000"
proof -
  have "real_of_int d
          = real_of_int (d sdiv Minute) * real_of_int Minute + real_of_int (d smod Minute)"
    by (metis of_int_add of_int_mult sdiv_mult_smod_eq)
  then have "Minutes d = real_of_int d / 60000000000"
    by (simp add: Minutes_def Minute_def field_simps)
  also have "\<dots> < 10 \<longleftrightarrow> real_of_int d < 600000000000"
    by (simp add: divide_less_eq)
  also have "\<dots> \<longleftrightarrow> d < 600000000000"
    using of_int_less_iff [where 'a = real, of d 600000000000] by simp
  finally show ?thesis .
qed

text \<open>
  The test of line 55 on the saturated duration is the test \<open>now - t < 10 minutes\<close> on
  the exact difference.
\<close>

lemma fresh_iff: "Minutes (time_Since now t) < 10 \<longleftrightarrow> now - t < 600000000000"
  by (simp add: Minutes_less_10 time_Since_def time_Sub_def Let_def maxDuration_def
        minDuration_def)

lemma cacheHit_Some_iff:
  "cacheHit cache now city = Some d \<longleftrightarrow>
     (\<exists>c. cache = Some c \<and> now - Timestamp c < 600000000000 \<and> mapIndex (Data c) city = Some d)"
  by (cases cache) (auto simp: cacheHit_def fresh_iff)

lemma cacheHit_None [simp]: "cacheHit None now city = None"
  by (simp add: cacheHit_def)

subsection \<open>The ways through \<^verbatim>\<open>main\<close>\<close>

lemma main_no_city:
  "flagCity w = [] \<Longrightarrow>
     main w = \<lparr>printed = [CityMustBeSpecified], outcome = Exit 1, netCalls = [],
               collected = [], cacheVar = None, filesAfter = files w\<rparr>"
  by (simp add: main_def)

lemma main_no_config:
  "flagCity w \<noteq> [] \<Longrightarrow> loadedConfig w = Inl err \<Longrightarrow>
     main w = \<lparr>printed = [ErrorLoadingConfig err], outcome = Exit 1, netCalls = [],
               collected = [], cacheVar = None, filesAfter = files w\<rparr>"
  by (simp add: main_def loadedConfig_def)

lemma main_hit:
  "flagCity w \<noteq> [] \<Longrightarrow> loadedConfig w = Inr config \<Longrightarrow> answersFromCache w = Some d \<Longrightarrow>
     main w = reportFromCache w (fst (loadedCache w))
                (errorLine ErrorLoadingCache (snd (loadedCache w))) d"
  by (auto simp add: main_def loadedConfig_def answersFromCache_def loadedCache_def Let_def
           split: prod.splits)

lemma main_miss:
  "flagCity w \<noteq> [] \<Longrightarrow> loadedConfig w = Inr config \<Longrightarrow> answersFromCache w = None \<Longrightarrow>
     main w = fetchAndReport w config (fst (loadedCache w))
                (errorLine ErrorLoadingCache (snd (loadedCache w)))"
  by (auto simp add: main_def loadedConfig_def answersFromCache_def loadedCache_def Let_def
           split: prod.splits)

lemma main_cases:
  obtains
    (no_city) "flagCity w = []"
  | (no_config) err where "flagCity w \<noteq> []" "loadedConfig w = Inl err"
  | (hit) config d where "flagCity w \<noteq> []" "loadedConfig w = Inr config"
      "answersFromCache w = Some d"
  | (miss) config where "flagCity w \<noteq> []" "loadedConfig w = Inr config"
      "answersFromCache w = None"
  by (cases "flagCity w = []"; cases "loadedConfig w"; cases "answersFromCache w") auto

lemma reportFromCache_fields:
  "netCalls (reportFromCache w cache out d) = []"
  "collected (reportFromCache w cache out d) = []"
  "cacheVar (reportFromCache w cache out d) = cache"
  "filesAfter (reportFromCache w cache out d) = files w"
  "printed (reportFromCache w cache out d) =
     out @ [WeatherFromCache (Name d), TemperatureLine (Temp (Main d)),
            HumidityLine (Humidity (Main d))]
         @ (case Weather d of [] \<Rightarrow> [] | first # rest \<Rightarrow> [DescriptionLine (Description first)])"
  "outcome (reportFromCache w cache out d) =
     (case Weather d of [] \<Rightarrow> Panic IndexOutOfRange | first # rest \<Rightarrow> Return)"
  by (simp_all add: reportFromCache_def Let_def split: list.splits)

lemma fetchAndReport_netCalls:
  "netCalls (fetchAndReport w config cache out) =
     [urlOpenWeatherMap (flagCity w) (OpenWeatherMapAPIKey config),
      urlWeatherAPI (flagCity w) (WeatherAPIKey config)]"
  by (simp add: fetchAndReport_def Let_def split: option.splits prod.splits)

lemma fetchAndReport_collected:
  "collected (fetchAndReport w config cache out) =
     forkJoin (owmFirst w) (owmResult w config) (wapiResult w config)"
  by (simp add: fetchAndReport_def Let_def owmResult_def wapiResult_def
           split: option.splits prod.splits)

text \<open>No reading: line 93.\<close>

lemma fetchAndReport_none:
  assumes "forkJoin (owmFirst w) (owmResult w config) (wapiResult w config) = []"
  shows "fetchAndReport w config cache out =
           \<lparr>printed = out @ [FailedToRetrieve], outcome = Exit 1,
            netCalls = [urlOpenWeatherMap (flagCity w) (OpenWeatherMapAPIKey config),
                        urlWeatherAPI (flagCity w) (WeatherAPIKey config)],
            collected = [], cacheVar = cache, filesAfter = files w\<rparr>"
  using assms by (simp add: fetchAndReport_def Let_def owmResult_def wapiResult_def)

text \<open>
  A reading, and a loaded cache whose map is nil (a cache file without the key
  \<^verbatim>\<open>data\<close>): the average is printed and line 112 panics.
\<close>

lemma fetchAndReport_nil_map:
  assumes "forkJoin (owmFirst w) (owmResult w config) (wapiResult w config) = xs" "xs \<noteq> []"
    and "cache = Some c" "Data c = NilMap"
  shows "fetchAndReport w config cache out =
           \<lparr>printed = out @ [AverageTemperatureIn (Name (hd xs)), TemperatureLine (avgTemp w xs)],
            outcome = Panic AssignmentToNilMap,
            netCalls = [urlOpenWeatherMap (flagCity w) (OpenWeatherMapAPIKey config),
                        urlWeatherAPI (flagCity w) (WeatherAPIKey config)],
            collected = xs, cacheVar = cache, filesAfter = files w\<rparr>"
  using assms
  by (simp add: fetchAndReport_def Let_def owmResult_def wapiResult_def mapAssign_def
        hd_conv_nth)

lemma Cache_update_both:
  "c\<lparr>Data := m, Timestamp := t\<rparr> = \<lparr>Data = m, Timestamp = t\<rparr>" for c :: Cache
  by (cases c) simp

text \<open>A reading, and a map to assign into: lines 99 to 117 run to the end.\<close>

lemma fetchAndReport_stored:
  assumes "forkJoin (owmFirst w) (owmResult w config) (wapiResult w config) = xs" "xs \<noteq> []"
    and "entriesBefore cache = GoMap m"
  shows "fetchAndReport w config cache out =
           (let cache2 = \<lparr>Data = GoMap (m(flagCity w \<mapsto> hd xs)), Timestamp = updateNow w\<rparr>;
                saved = saveCache (marshalCache w) (files w) (refuseWrite w) ''cache.json'' cache2
            in \<lparr>printed = out @ [AverageTemperatureIn (Name (hd xs)), TemperatureLine (avgTemp w xs)]
                            @ errorLine ErrorSavingCache (snd saved),
                outcome = Return,
                netCalls = [urlOpenWeatherMap (flagCity w) (OpenWeatherMapAPIKey config),
                            urlWeatherAPI (flagCity w) (WeatherAPIKey config)],
                collected = xs, cacheVar = Some cache2, filesAfter = fst saved\<rparr>)"
  using assms
  by (cases cache)
     (simp_all add: fetchAndReport_def Let_def owmResult_def wapiResult_def mapAssign_def
        hd_conv_nth entriesBefore_def Cache_update_both case_prod_beta)

lemma forkJoin_eq:
  "forkJoin first r1 r2 =
     (if first then [d. Inr d \<leftarrow> [r1, r2]] else [d. Inr d \<leftarrow> [r2, r1]])"
  by (cases r1; cases r2) (simp_all add: forkJoin_def appendIfNoError_def)

lemma forkJoin_Nil_iff: "forkJoin first r1 r2 = [] \<longleftrightarrow> isl r1 \<and> isl r2"
  by (cases r1; cases r2) (simp_all add: forkJoin_def appendIfNoError_def)

text \<open>Readings are collected only on the way through lines 65 to 117.\<close>

lemma collected_main_nonempty:
  assumes "collected (main w) \<noteq> []"
  obtains config where "flagCity w \<noteq> []" "loadedConfig w = Inr config"
    "answersFromCache w = None"
    "main w = fetchAndReport w config (fst (loadedCache w))
                (errorLine ErrorLoadingCache (snd (loadedCache w)))"
    "forkJoin (owmFirst w) (owmResult w config) (wapiResult w config) = collected (main w)"
proof (cases w rule: main_cases)
  case no_city
  with assms show ?thesis by (simp add: main_no_city)
next
  case (no_config err)
  with assms show ?thesis by (simp add: main_no_config)
next
  case (hit config d)
  with assms show ?thesis by (simp add: main_hit reportFromCache_fields)
next
  case (miss config)
  then have m: "main w = fetchAndReport w config (fst (loadedCache w))
                (errorLine ErrorLoadingCache (snd (loadedCache w)))"
    by (rule main_miss)
  show ?thesis
    by (rule that [OF miss m]) (simp add: m fetchAndReport_collected)
qed

text \<open>What a run prints once a reading was collected.\<close>

lemma printed_after_fetch:
  assumes "collected (main w) = xs" "xs \<noteq> []"
  shows "\<exists>saveErr. printed (main w) =
           errorLine ErrorLoadingCache (snd (loadedCache w))
             @ [AverageTemperatureIn (Name (hd xs)), TemperatureLine (avgTemp w xs)]
             @ errorLine ErrorSavingCache saveErr"
proof -
  from assms have "collected (main w) \<noteq> []" by simp
  then obtain config where
    m: "main w = fetchAndReport w config (fst (loadedCache w))
                (errorLine ErrorLoadingCache (snd (loadedCache w)))"
    and fj: "forkJoin (owmFirst w) (owmResult w config) (wapiResult w config) = collected (main w)"
    by (rule collected_main_nonempty)
  from fj assms have fj': "forkJoin (owmFirst w) (owmResult w config) (wapiResult w config) = xs"
    by simp
  show ?thesis
  proof (cases "entriesBefore (fst (loadedCache w))")
    case NilMap
    then obtain c where "fst (loadedCache w) = Some c" "Data c = NilMap"
      by (auto simp: entriesBefore_def split: option.splits)
    with fj' assms(2) m have "printed (main w) =
           errorLine ErrorLoadingCache (snd (loadedCache w))
             @ [AverageTemperatureIn (Name (hd xs)), TemperatureLine (avgTemp w xs)]
             @ errorLine ErrorSavingCache None"
      by (simp add: fetchAndReport_nil_map errorLine_def)
    then show ?thesis ..
  next
    case (GoMap mp)
    with fj' assms(2) m show ?thesis
      by (simp add: fetchAndReport_stored Let_def) blast
  qed
qed

text \<open>
  When a run that reaches the fetch returns with a reading: some provider call
  succeeded and the map to assign into is not nil.
\<close>

lemma fetch_success_iff:
  assumes "flagCity w \<noteq> []" "loadedConfig w = Inr config" "answersFromCache w = None"
  shows "outcome (main w) = Return \<and> collected (main w) \<noteq> [] \<longleftrightarrow>
           \<not> (isl (owmResult w config) \<and> isl (wapiResult w config)) \<and>
           entriesBefore (fst (loadedCache w)) \<noteq> NilMap"
proof -
  let ?xs = "forkJoin (owmFirst w) (owmResult w config) (wapiResult w config)"
  from assms have m: "main w = fetchAndReport w config (fst (loadedCache w))
                (errorLine ErrorLoadingCache (snd (loadedCache w)))"
    by (rule main_miss)
  show ?thesis
  proof (cases "?xs = []")
    case True
    then show ?thesis by (simp add: m fetchAndReport_none forkJoin_Nil_iff)
  next
    case False
    show ?thesis
    proof (cases "entriesBefore (fst (loadedCache w))")
      case NilMap
      then obtain c where "fst (loadedCache w) = Some c" "Data c = NilMap"
        by (auto simp: entriesBefore_def split: option.splits)
      with False NilMap show ?thesis
        by (simp add: m fetchAndReport_nil_map [OF refl])
    next
      case (GoMap mp)
      with False show ?thesis
        by (simp add: m fetchAndReport_stored [OF refl] Let_def forkJoin_Nil_iff)
    qed
  qed
qed

text \<open>
  A run that reaches the fetch, collects a reading and has a map to assign into
  returns, holds the cache with the first reading as the city's entry and the clock of
  line 113 as timestamp, and has called \<open>saveCache\<close> on it.
\<close>

lemma main_stores_first_reading:
  assumes "flagCity w \<noteq> []" "loadedConfig w = Inr config" "answersFromCache w = None"
    and "forkJoin (owmFirst w) (owmResult w config) (wapiResult w config) = xs" "xs \<noteq> []"
    and "entriesBefore (fst (loadedCache w)) = GoMap m"
  shows "outcome (main w) = Return \<and>
         collected (main w) = xs \<and>
         cacheVar (main w)
           = Some \<lparr>Data = GoMap (m(flagCity w \<mapsto> hd xs)), Timestamp = updateNow w\<rparr> \<and>
         filesAfter (main w)
           = fst (saveCache (marshalCache w) (files w) (refuseWrite w) ''cache.json''
                    \<lparr>Data = GoMap (m(flagCity w \<mapsto> hd xs)), Timestamp = updateNow w\<rparr>)"
  using assms by (simp add: main_miss fetchAndReport_stored Let_def)


lemma fetchWeatherData_error_iff:
  "fetchWeatherData get unmarshal url = Inl e \<longleftrightarrow>
     get url = GetError e
     \<or> (\<exists>status. get url = Response status (Inl e))
     \<or> (\<exists>status bytes. get url = Response status (Inr bytes) \<and> unmarshal bytes = Inl e)"
  by (auto simp: fetchWeatherData_def split: http_result.splits sum.splits)

subsection \<open>The cache answers\<close>

text \<open>
  With a cache loaded without error, no request is made exactly when the cache is
  younger than ten minutes and has the city.
\<close>

lemma fetch_skipped_iff:
  assumes "flagCity w \<noteq> []" "loadedConfig w = Inr config" "loadedCache w = (Some c, None)"
  shows "netCalls (main w) = [] \<longleftrightarrow>
           sinceNow w - Timestamp c < 600000000000 \<and> mapIndex (Data c) (flagCity w) \<noteq> None"
proof (cases "answersFromCache w")
  case None
  with assms show ?thesis
    by (auto simp: main_miss fetchAndReport_netCalls answersFromCache_def cacheHit_def fresh_iff)
next
  case (Some d)
  with assms show ?thesis
    by (auto simp: main_hit reportFromCache_fields answersFromCache_def cacheHit_def fresh_iff
             split: if_splits)
qed

text \<open>A cached reading with a weather item is printed in four lines and the run returns.\<close>

lemma cache_hit_report:
  assumes "flagCity w \<noteq> []" "loadedConfig w = Inr config" "answersFromCache w = Some d"
    and "Weather d = first # rest"
  shows "main w =
           \<lparr>printed = errorLine ErrorLoadingCache (snd (loadedCache w))
                        @ [WeatherFromCache (Name d), TemperatureLine (Temp (Main d)),
                           HumidityLine (Humidity (Main d)), DescriptionLine (Description first)],
            outcome = Return, netCalls = [], collected = [], cacheVar = fst (loadedCache w),
            filesAfter = files w\<rparr>"
  using assms by (simp add: main_hit reportFromCache_def)

text \<open>
  C1. A cache file whose entry for London has an empty \<^verbatim>\<open>weather\<close> array, read three
  minutes after its timestamp, with London asked for: the cache is loaded without
  error, it is fresh and it has the city, and no request is made; but the run prints
  three lines and panics on line 60, where the claim has it print the cached reading
  and terminate successfully.
\<close>

theorem cache_hit_on_empty_weather_panics:
  "loadedCache (cachedWorld emptyWeatherCacheText 3) = (Some emptyWeatherCache, None) \<and>
   sinceNow (cachedWorld emptyWeatherCacheText 3) - Timestamp emptyWeatherCache = 3 * Minute \<and>
   mapIndex (Data emptyWeatherCache) (flagCity (cachedWorld emptyWeatherCacheText 3))
     = Some emptyWeatherReading \<and>
   netCalls (main (cachedWorld emptyWeatherCacheText 3)) = [] \<and>
   printed (main (cachedWorld emptyWeatherCacheText 3))
     = [WeatherFromCache ''London'', TemperatureLine float64_7_5, HumidityLine 81] \<and>
   outcome (main (cachedWorld emptyWeatherCacheText 3)) = Panic IndexOutOfRange"
  by (simp add: model_defs world_defs fresh_iff)

text \<open>
  C10. When the cache answers with reading \<open>d\<close>, line 60 reads \<^verbatim>\<open>Weather[0]\<close> unchecked:
  the run returns exactly when \<open>Weather d\<close> is not empty and panics with an index out
  of range exactly when it is empty; and there is a run, on a cache file that is
  loaded without error, where the entry of the city has an empty weather list and the
  run panics so.
\<close>

theorem cache_hit_indexes_weather_unchecked:
  assumes "flagCity w \<noteq> []" "loadedConfig w = Inr config" "answersFromCache w = Some d"
  shows "(outcome (main w) = Return \<longleftrightarrow> Weather d \<noteq> []) \<and>
         (outcome (main w) = Panic IndexOutOfRange \<longleftrightarrow> Weather d = []) \<and>
         (\<exists>w' config' c' d'. flagCity w' \<noteq> [] \<and> loadedConfig w' = Inr config' \<and>
            loadedCache w' = (Some c', None) \<and> answersFromCache w' = Some d' \<and>
            Weather d' = [] \<and> outcome (main w') = Panic IndexOutOfRange)"
proof -
  have "outcome (main w)
          = (case Weather d of [] \<Rightarrow> Panic IndexOutOfRange | first # rest \<Rightarrow> Return)"
    using assms by (simp add: main_hit reportFromCache_fields)
  then have here: "(outcome (main w) = Return \<longleftrightarrow> Weather d \<noteq> []) \<and>
         (outcome (main w) = Panic IndexOutOfRange \<longleftrightarrow> Weather d = [])"
    by (cases "Weather d") simp_all
  let ?w = "cachedWorld emptyWeatherCacheText 3"
  have "flagCity ?w \<noteq> [] \<and> loadedConfig ?w = Inr exampleConfig \<and>
        loadedCache ?w = (Some emptyWeatherCache, None) \<and>
        answersFromCache ?w = Some emptyWeatherReading \<and>
        Weather emptyWeatherReading = [] \<and> outcome (main ?w) = Panic IndexOutOfRange"
    by (simp add: model_defs world_defs fresh_iff)
  then have "\<exists>w' config' c' d'. flagCity w' \<noteq> [] \<and> loadedConfig w' = Inr config' \<and>
            loadedCache w' = (Some c', None) \<and> answersFromCache w' = Some d' \<and>
            Weather d' = [] \<and> outcome (main w') = Panic IndexOutOfRange"
    by blast
  with here show ?thesis by blast
qed

theorem cache_hit_indexes_weather_unchecked_witness:
  "answersFromCache (cachedWorld rainCacheText 5) = Some rainReading \<and>
   Weather rainReading \<noteq> [] \<and>
   outcome (main (cachedWorld rainCacheText 5)) = Return"
proof -
  have h: "flagCity (cachedWorld rainCacheText 5) \<noteq> []"
    "loadedConfig (cachedWorld rainCacheText 5) = Inr exampleConfig"
    "answersFromCache (cachedWorld rainCacheText 5) = Some rainReading"
    by (simp_all add: model_defs world_defs fresh_iff)
  have "Weather rainReading \<noteq> []" by (simp add: rainReading_def)
  with cache_hit_indexes_weather_unchecked [OF h] h(3) show ?thesis by simp
qed

subsection \<open>The providers\<close>

text \<open>
  C2. When the run reaches the fetch and both provider calls return an error, no
  reading is collected, the last line printed is the failure message, the process
  exits with status 1, the variable \<^verbatim>\<open>cache\<close> is what \<open>loadCache\<close> returned and no file
  has changed.
\<close>

theorem both_providers_fail:
  assumes "flagCity w \<noteq> []" "loadedConfig w = Inr config" "answersFromCache w = None"
    and "owmResult w config = Inl e1" "wapiResult w config = Inl e2"
  shows "collected (main w) = [] \<and>
         printed (main w)
           = errorLine ErrorLoadingCache (snd (loadedCache w)) @ [FailedToRetrieve] \<and>
         outcome (main w) = Exit 1 \<and>
         cacheVar (main w) = fst (loadedCache w) \<and>
         filesAfter (main w) = files w"
proof -
  from assms(4,5) have "forkJoin (owmFirst w) (owmResult w config) (wapiResult w config) = []"
    by (simp add: forkJoin_Nil_iff)
  with assms(1-3) show ?thesis
    by (simp add: main_miss fetchAndReport_none)
qed

theorem both_providers_fail_witness:
  "collected (main offlineWorld) = [] \<and>
   printed (main offlineWorld) = [FailedToRetrieve] \<and>
   outcome (main offlineWorld) = Exit 1 \<and>
   cacheVar (main offlineWorld) = None \<and>
   filesAfter (main offlineWorld) = files offlineWorld"
proof -
  have "flagCity offlineWorld \<noteq> []" "loadedConfig offlineWorld = Inr exampleConfig"
    "answersFromCache offlineWorld = None"
    "owmResult offlineWorld exampleConfig = Inl (ErrOther ''no such host'')"
    "wapiResult offlineWorld exampleConfig = Inl (ErrOther ''no such host'')"
    "loadedCache offlineWorld = (None, None)"
    by (simp_all add: model_defs world_defs)
  with both_providers_fail [of offlineWorld exampleConfig "ErrOther ''no such host''"
      "ErrOther ''no such host''"]
  show ?thesis by (simp add: errorLine_def)
qed

text \<open>
  C4, the claim as it stands fails: the first provider answers with status 401 and a
  JSON body, \<open>fetchWeatherData\<close> returns no error, and the reading decoded from that
  body is collected.
\<close>

theorem non_2xx_reading_is_collected:
  "httpGet unauthorizedWorld (urlOpenWeatherMap (flagCity unauthorizedWorld)
      (OpenWeatherMapAPIKey exampleConfig)) = Response 401 (Inr unauthorizedBody) \<and>
   loadedConfig unauthorizedWorld = Inr exampleConfig \<and>
   owmResult unauthorizedWorld exampleConfig = Inr zeroWeatherData \<and>
   collected (main unauthorizedWorld) = [zeroWeatherData]"
  by (simp add: unauthorizedWorld_def model_defs world_defs)

text \<open>
  C4, amended. When the run reaches the fetch, the readings collected are those of
  the calls that returned no error, in the order in which the goroutines appended; a
  reading returned by one provider is collected whatever the other call did; and a
  call returns an error exactly when \<^verbatim>\<open>http.Get\<close> fails, reading the body fails or the
  body does not decode, whatever the status code.
\<close>

theorem reading_dropped_iff_call_errors:
  assumes "flagCity w \<noteq> []" "loadedConfig w = Inr config" "answersFromCache w = None"
  shows "collected (main w) =
           (if owmFirst w then [d. Inr d \<leftarrow> [owmResult w config, wapiResult w config]]
            else [d. Inr d \<leftarrow> [wapiResult w config, owmResult w config]]) \<and>
         (\<forall>d. owmResult w config = Inr d \<longrightarrow> d \<in> set (collected (main w))) \<and>
         (\<forall>d. wapiResult w config = Inr d \<longrightarrow> d \<in> set (collected (main w))) \<and>
         (\<forall>e. owmResult w config = Inl e \<longleftrightarrow>
            (let url = urlOpenWeatherMap (flagCity w) (OpenWeatherMapAPIKey config)
             in httpGet w url = GetError e
                \<or> (\<exists>status. httpGet w url = Response status (Inl e))
                \<or> (\<exists>status bytes. httpGet w url = Response status (Inr bytes)
                      \<and> unmarshalWeatherData w bytes = Inl e))) \<and>
         (\<forall>e. wapiResult w config = Inl e \<longleftrightarrow>
            (let url = urlWeatherAPI (flagCity w) (WeatherAPIKey config)
             in httpGet w url = GetError e
                \<or> (\<exists>status. httpGet w url = Response status (Inl e))
                \<or> (\<exists>status bytes. httpGet w url = Response status (Inr bytes)
                      \<and> unmarshalWeatherData w bytes = Inl e)))"
proof -
  have c: "collected (main w) =
           (if owmFirst w then [d. Inr d \<leftarrow> [owmResult w config, wapiResult w config]]
            else [d. Inr d \<leftarrow> [wapiResult w config, owmResult w config]])"
    using assms by (simp add: main_miss fetchAndReport_collected forkJoin_eq)
  have o: "\<forall>d. owmResult w config = Inr d \<longrightarrow> d \<in> set (collected (main w))"
    by (cases "wapiResult w config") (simp_all add: c)
  have a: "\<forall>d. wapiResult w config = Inr d \<longrightarrow> d \<in> set (collected (main w))"
    by (cases "owmResult w config") (simp_all add: c)
  have eo: "\<forall>e. owmResult w config = Inl e \<longleftrightarrow>
            (let url = urlOpenWeatherMap (flagCity w) (OpenWeatherMapAPIKey config)
             in httpGet w url = GetError e
                \<or> (\<exists>status. httpGet w url = Response status (Inl e))
                \<or> (\<exists>status bytes. httpGet w url = Response status (Inr bytes)
                      \<and> unmarshalWeatherData w bytes = Inl e))"
    by (simp add: owmResult_def getWeatherFromOpenWeatherMap_def fetchWeatherData_error_iff
          Let_def)
  have ea: "\<forall>e. wapiResult w config = Inl e \<longleftrightarrow>
            (let url = urlWeatherAPI (flagCity w) (WeatherAPIKey config)
             in httpGet w url = GetError e
                \<or> (\<exists>status. httpGet w url = Response status (Inl e))
                \<or> (\<exists>status bytes. httpGet w url = Response status (Inr bytes)
                      \<and> unmarshalWeatherData w bytes = Inl e))"
    by (simp add: wapiResult_def getWeatherFromWeatherAPI_def fetchWeatherData_error_iff
          Let_def)
  from c o a eo ea show ?thesis by blast
qed

theorem reading_dropped_iff_call_errors_witness:
  "owmResult firstProviderWorld exampleConfig = Inr rainReading \<and>
   wapiResult firstProviderWorld exampleConfig = Inl (ErrOther ''no such host'') \<and>
   collected (main firstProviderWorld) = [rainReading]"
proof -
  have h: "flagCity firstProviderWorld \<noteq> []"
    "loadedConfig firstProviderWorld = Inr exampleConfig"
    "answersFromCache firstProviderWorld = None"
    by (simp_all add: model_defs world_defs)
  have r: "owmResult firstProviderWorld exampleConfig = Inr rainReading"
    "wapiResult firstProviderWorld exampleConfig = Inl (ErrOther ''no such host'')"
    "owmFirst firstProviderWorld"
    by (simp_all add: model_defs world_defs)
  from reading_dropped_iff_call_errors [OF h] r show ?thesis by simp
qed

subsection \<open>The report\<close>

text \<open>
  C5, the claim as it stands fails: one reading with humidity 80 and description
  \<open>light rain\<close> is collected, and the run prints the header with the reading's name
  and the temperature, and neither the humidity nor the description.
\<close>

theorem report_omits_humidity_and_description:
  "collected (main firstProviderWorld) = [rainReading] \<and>
   printed (main firstProviderWorld) = [AverageTemperatureIn ''London'', TemperatureLine float64_10] \<and>
   HumidityLine (Humidity (Main rainReading)) \<notin> set (printed (main firstProviderWorld)) \<and>
   DescriptionLine (Description (hd (Weather rainReading)))
     \<notin> set (printed (main firstProviderWorld))"
  by (simp add: model_defs world_defs)

text \<open>
  C5, amended. When a reading was collected, the header of the report carries the
  name of the first collected reading, next to the average temperature; no humidity
  line and no description line is printed.
\<close>

theorem report_names_first_reading:
  assumes "collected (main w) \<noteq> []"
  shows "[n. AverageTemperatureIn n \<leftarrow> printed (main w)] = [Name (hd (collected (main w)))] \<and>
         [t. TemperatureLine t \<leftarrow> printed (main w)] = [avgTemp w (collected (main w))] \<and>
         (\<forall>h. HumidityLine h \<notin> set (printed (main w))) \<and>
         (\<forall>s. DescriptionLine s \<notin> set (printed (main w)))"
proof -
  from printed_after_fetch [OF refl assms] obtain saveErr where
    "printed (main w) =
       errorLine ErrorLoadingCache (snd (loadedCache w))
         @ [AverageTemperatureIn (Name (hd (collected (main w)))),
            TemperatureLine (avgTemp w (collected (main w)))]
         @ errorLine ErrorSavingCache saveErr" ..
  then show ?thesis
    by (simp add: errorLine_def split: option.splits)
qed

theorem report_names_first_reading_witness:
  "collected (main twoReadingsWorld) = [rainReading, clearReading] \<and>
   [n. AverageTemperatureIn n \<leftarrow> printed (main twoReadingsWorld)] = [''London''] \<and>
   HumidityLine 80 \<notin> set (printed (main twoReadingsWorld)) \<and>
   DescriptionLine ''light rain'' \<notin> set (printed (main twoReadingsWorld))"
proof -
  have two: "collected (main twoReadingsWorld) = [rainReading, clearReading]"
    by (simp add: model_defs world_defs)
  then have "collected (main twoReadingsWorld) \<noteq> []" by simp
  from report_names_first_reading [OF this] two show ?thesis
    by (simp add: rainReading_def)
qed

subsection \<open>Loading and saving the cache\<close>

text \<open>
  C6. Where no file exists, \<open>loadCache\<close> returns no error and no cache, and the
  lookup of lines 55 and 56 then finds no city, whatever the time. It returns an error
  only for a file that exists and cannot be read, or whose contents the decoder
  rejects.
\<close>

theorem loadCache_missing_file_or_error:
  "(fs filename = NoFile \<longrightarrow>
      loadCache unmarshal fs filename = (None, None) \<and>
      (\<forall>now city. cacheHit (fst (loadCache unmarshal fs filename)) now city = None)) \<and>
   (\<forall>e. snd (loadCache unmarshal fs filename) = Some e \<longrightarrow>
      fs filename \<noteq> NoFile \<and>
      ((\<exists>msg. fs filename = Unreadable msg \<and> e = ErrOther msg)
       \<or> (\<exists>bytes. fs filename = Contents bytes \<and> unmarshal bytes = Inl e)))"
  by (auto simp: loadCache_def ioutil_ReadFile_def os_IsNotExist_def
           split: fileState.splits sum.splits)

theorem loadCache_missing_file_or_error_witness:
  "(files offlineWorld ''cache.json'' = NoFile \<and>
    loadCache (unmarshalCache offlineWorld) (files offlineWorld) ''cache.json'' = (None, None)) \<and>
   (snd (loadCache (unmarshalCache brokenCacheWorld) (files brokenCacheWorld) ''cache.json'')
      = Some (ErrOther ''invalid character'') \<and>
    files brokenCacheWorld ''cache.json'' = Contents ''not json'')"
proof -
  have missing: "files offlineWorld ''cache.json'' = NoFile"
    by (simp add: offlineWorld_def)
  have broken: "snd (loadCache (unmarshalCache brokenCacheWorld) (files brokenCacheWorld)
                       ''cache.json'') = Some (ErrOther ''invalid character'')"
    by (simp add: brokenCacheWorld_def offlineWorld_def loadCache_def ioutil_ReadFile_def)
  have contents: "files brokenCacheWorld ''cache.json'' = Contents ''not json''"
    by (simp add: brokenCacheWorld_def offlineWorld_def)
  from missing
    loadCache_missing_file_or_error
      [of "files offlineWorld" "''cache.json''" "unmarshalCache offlineWorld"]
  have "loadCache (unmarshalCache offlineWorld) (files offlineWorld) ''cache.json'' = (None, None)"
    by blast
  moreover from broken
    loadCache_missing_file_or_error
      [of "files brokenCacheWorld" "''cache.json''" "unmarshalCache brokenCacheWorld"]
  have "files brokenCacheWorld ''cache.json'' \<noteq> NoFile"
    by blast
  ultimately show ?thesis
    using missing broken contents by simp
qed

subsection \<open>IEEE 754 arithmetic\<close>

lemma float64_decode_valid: "ieee_valid (float64_decode x)"
proof -
  have "uint x mod 2 ^ 52 < 2 ^ 52" "0 \<le> uint x mod 2 ^ 52" by simp_all
  moreover have "(uint x div 2 ^ 52) mod 2 ^ 11 < 2 ^ 11" "0 \<le> (uint x div 2 ^ 52) mod 2 ^ 11"
    by simp_all
  ultimately show ?thesis
    by (auto simp: float64_decode_def ieee_valid_def Let_def)
qed

lemma bitlen_53: "2 ^ 52 \<le> m \<Longrightarrow> m < 2 ^ 53 \<Longrightarrow> bitlen m = 53"
  using bitlen_twopow_add_eq [of "m - 2 ^ 52" 52] by simp

lemma roundHalfEven_exact:
  "0 < k \<Longrightarrow> roundHalfEven (m * 2 ^ k) k False = m"
  by (simp add: roundHalfEven_def Let_def)

lemma ieee_round_exact:
  assumes v: "ieee_valid (Finite sign m e)" and m: "m \<noteq> 0" and e: "e' + int n = e"
  shows "ieee_round sign (m * 2 ^ n) False e' = Finite sign m e"
proof -
  from v m have pos: "0 < m" and lt: "m < 2 ^ 53" and lo: "- 1074 \<le> e" and hi: "e \<le> 971"
    and norm: "2 ^ 52 \<le> m \<or> e = - 1074"
    by (auto simp: ieee_valid_def)
  have bl: "bitlen (m * 2 ^ n) = bitlen m + int n"
    using pos by simp
  have ble: "bitlen m \<le> 53"
    using lt by (simp add: bitlen_le_iff_power)
  have k: "max (bitlen (m * 2 ^ n) - 53) (- 1074 - e') = int n"
  proof (cases "2 ^ 52 \<le> m")
    case True
    from True lt have "bitlen m = 53" by (rule bitlen_53)
    with bl e lo show ?thesis by simp
  next
    case False
    with norm have "e = - 1074" by simp
    with bl ble e show ?thesis by simp
  qed
  have nz: "m * 2 ^ n \<noteq> 0" using pos by simp
  show ?thesis
  proof (cases "n = 0")
    case True
    have up: "min (53 - bitlen m) (e + 1074) = 0"
    proof (cases "2 ^ 52 \<le> m")
      case True
      from True lt have "bitlen m = 53" by (rule bitlen_53)
      with lo show ?thesis by simp
    next
      case False
      with norm have "e = - 1074" by simp
      with ble show ?thesis by simp
    qed
    from True e have "e' = e" by simp
    with True k up hi pos show ?thesis
      by (simp add: ieee_round_def Let_def)
  next
    case False
    then have n: "0 < n" by simp
    then have q: "roundHalfEven (m * 2 ^ n) n False = m"
      by (rule roundHalfEven_exact)
    from lt have "m \<noteq> 2 ^ 53" by simp
    with n k q hi e nz show ?thesis
      by (simp add: ieee_round_def Let_def)
  qed
qed

lemma ieee_valid_zero: "ieee_valid (Finite sign 0 e) \<Longrightarrow> e = - 1074"
  by (simp add: ieee_valid_def)

text \<open>Adding to the zero total gives the value itself, and 0 for the negative zero.\<close>

lemma ieee_add_zero:
  assumes "ieee_valid v"
  shows "ieee_add (Finite False 0 (- 1074)) v
           = (if v = Finite True 0 (- 1074) then Finite False 0 (- 1074) else v)"
proof (cases v)
  case (Finite sign m e)
  show ?thesis
  proof (cases "m = 0")
    case True
    with assms Finite have "e = - 1074" by (simp add: ieee_valid_zero)
    with True Finite show ?thesis by (cases sign) simp_all
  next
    case False
    from assms Finite have lo: "- 1074 \<le> e" and pos: "0 \<le> m" by (simp_all add: ieee_valid_def)
    with False have mpos: "0 < m" by simp
    have "ieee_round sign (m * 2 ^ nat (e + 1074)) False (- 1074) = Finite sign m e"
      using assms Finite False lo by (intro ieee_round_exact) simp_all
    moreover have "min (- 1074) e = - 1074" using lo by simp
    ultimately show ?thesis
      using Finite False mpos
      by (cases sign) (simp_all add: Let_def mult_less_0_iff zero_less_mult_iff abs_mult)
  qed
qed simp_all

text \<open>Dividing by 1 gives the value itself.\<close>

lemma ieee_div_one:
  assumes "ieee_valid v"
  shows "ieee_div v (Finite False 0x10000000000000 (- 52)) = v"
proof (cases v)
  case (Finite sign m e)
  show ?thesis
  proof (cases "m = 0")
    case True
    with assms Finite have "e = - 1074" by (simp add: ieee_valid_zero)
    with True Finite show ?thesis by simp
  next
    case False
    from assms Finite have lt: "m < 2 ^ 53" and pos: "0 \<le> m" by (simp_all add: ieee_valid_def)
    then have ble: "bitlen m \<le> 53" by (simp add: bitlen_le_iff_power)
    have b52: "bitlen 0x10000000000000 = 53"
      using bitlen_twopow_add_eq [of 0 52] by simp
    define k where "k = nat (108 - bitlen m)"
    have k52: "52 \<le> k" using ble by (simp add: k_def)
    have kk: "nat (max 0 (55 + bitlen 0x10000000000000 - bitlen m)) = k"
      using ble by (simp add: b52 k_def)
    have "(2::int) ^ (k - 52 + 52) = 2 ^ (k - 52) * 2 ^ 52"
      by (rule power_add)
    with k52 have pw: "(2::int) ^ k = 2 ^ (k - 52) * 0x10000000000000"
      by simp
    have d: "(m * 2 ^ k) div 0x10000000000000 = m * 2 ^ (k - 52)"
      by (simp add: pw)
    have r: "(m * 2 ^ k) mod 0x10000000000000 = 0"
      by (simp add: pw)
    have "ieee_round sign (m * 2 ^ (k - 52)) False (e + 52 - int k) = Finite sign m e"
      using assms Finite False k52 by (intro ieee_round_exact) simp_all
    with False Finite kk d r show ?thesis
      by (simp add: Let_def)
  qed
qed simp_all

lemma ieee_of_int_1: "ieee_of_int 1 = Finite False 0x10000000000000 (- 52)"
  by code_simp

lemma ieee_avg_single:
  assumes "ieee_valid v"
  shows "ieee_avg [v] = (if v = Finite True 0 (- 1074) then Finite False 0 (- 1074) else v)"
proof -
  have "ieee_valid (if v = Finite True 0 (- 1074) then Finite False 0 (- 1074) else v)"
    using assms by (simp add: ieee_valid_def)
  then show ?thesis
    using assms by (simp add: ieee_avg_def ieee_add_zero ieee_of_int_1 ieee_div_one)
qed

lemma float64_decode_0: "float64_decode 0 = Finite False 0 (- 1074)"
  by (simp add: float64_decode_def)

lemma ieee_sum_steps_foldl:
  "ieee_sum_steps w totalTemp xs \<Longrightarrow>
     float64_decode (foldl (\<lambda>totalTemp data. float64_add w totalTemp (Temp (Main data))) totalTemp xs)
       = foldl ieee_add (float64_decode totalTemp) (map (\<lambda>d. float64_decode (Temp (Main d))) xs)"
  by (induction xs arbitrary: totalTemp) simp_all

lemma ieee_steps_avgTemp:
  assumes "ieee_steps w xs"
  shows "float64_decode (avgTemp w xs) = ieee_avg (map (\<lambda>d. float64_decode (Temp (Main d))) xs)"
proof -
  from assms have s: "ieee_sum_steps w 0 xs"
    and n: "float64_decode (float64_of_int w (int (length xs))) = ieee_of_int (int (length xs))"
    and d: "float64_decode (avgTemp w xs)
              = ieee_div (float64_decode
                   (foldl (\<lambda>totalTemp data. float64_add w totalTemp (Temp (Main data))) 0 xs))
                  (float64_decode (float64_of_int w (int (length xs))))"
    by (simp_all add: ieee_steps_def Let_def avgTemp_def)
  from s have "float64_decode
                   (foldl (\<lambda>totalTemp data. float64_add w totalTemp (Temp (Main data))) 0 xs)
      = foldl ieee_add (Finite False 0 (- 1074)) (map (\<lambda>d. float64_decode (Temp (Main d))) xs)"
    by (simp add: ieee_sum_steps_foldl float64_decode_0)
  with n d show ?thesis
    by (simp add: ieee_avg_def)
qed

lemma uint_parts:
  fixes n :: int
  assumes "0 \<le> n" "n < 18446744073709551616"
  shows "n = (if 9223372036854775808 \<le> n then 9223372036854775808 else 0)
               + ((n div 4503599627370496) mod 2048) * 4503599627370496
               + n mod 4503599627370496"
proof -
  define q where "q = n div 4503599627370496"
  define r where "r = n mod 4503599627370496"
  have n: "n = q * 4503599627370496 + r"
    by (simp add: q_def r_def)
  have r: "0 \<le> r" "r < 4503599627370496"
    by (simp_all add: r_def)
  from assms n r have q: "0 \<le> q" "q < 4096"
    by linarith+
  have goal: "n = (if 9223372036854775808 \<le> n then 9223372036854775808 else 0)
                    + (q mod 2048) * 4503599627370496 + r"
  proof (cases "9223372036854775808 \<le> n")
    case True
    with n r have "2048 \<le> q" by linarith
    with q have "(q - 2048) mod 2048 = q - 2048"
      by (intro mod_pos_pos_trivial) simp_all
    then have qm: "q mod 2048 = q - 2048"
      by (simp only: minus_mod_self2)
    from True have c: "(if 9223372036854775808 \<le> n then 9223372036854775808 else 0)
                        = (9223372036854775808 :: int)" by simp
    have "n = 9223372036854775808 + (q - 2048) * 4503599627370496 + r"
      using n by (simp add: algebra_simps)
    then show ?thesis unfolding c qm .
  next
    case False
    with n r have "q < 2048" by linarith
    with q have qm: "q mod 2048 = q" by simp
    from False have c: "(if 9223372036854775808 \<le> n then 9223372036854775808 else 0)
                        = (0 :: int)" by simp
    from n show ?thesis unfolding c qm by simp
  qed
  then show ?thesis unfolding q_def r_def .
qed

text \<open>Bits that stand for the same value, other than not a number, are the same bits.\<close>

lemma float64_decode_inject:
  assumes "float64_decode x = float64_decode y" "float64_decode x \<noteq> NaN"
  shows "x = y"
proof -
  define E where "E z = (uint z div 4503599627370496) mod 2048" for z :: float64
  define F where "F z = uint z mod 4503599627370496" for z :: float64
  define S where "S z = (9223372036854775808 \<le> uint z)" for z :: float64
  have d: "float64_decode z =
             (if E z = 2047 then (if F z = 0 then Infinity (S z) else NaN)
              else if E z = 0 then Finite (S z) (F z) (- 1074)
              else Finite (S z) (4503599627370496 + F z) (E z - 1075))" for z
    by (simp add: float64_decode_def Let_def E_def F_def S_def)
  have b: "0 \<le> F z" "F z < 4503599627370496" for z
    by (simp_all add: F_def)
  have parts: "S x = S y \<and> E x = E y \<and> F x = F y"
    using assms b [of x] b [of y] unfolding d [of x] d [of y]
    by (auto split: if_splits)
  have "uint z = (if S z then 9223372036854775808 else 0) + E z * 4503599627370496 + F z"
    for z :: float64
    unfolding S_def E_def F_def
    by (rule uint_parts) (use uint_lt2p [of z] in simp_all)
  from this [of x] this [of y] parts have "uint x = uint y" by simp
  then show ?thesis by (simp add: word_uint_eq_iff)
qed

subsection \<open>The average\<close>

text \<open>
  C3, the claim as it stands fails: two readings of 1e308 degrees are collected, every
  operation of lines 99 to 103 gives its IEEE 754 result, and the temperature printed
  is the positive infinity, which is no number, where the mean of the two readings is
  the reading itself.
\<close>

theorem average_of_huge_readings_is_infinite:
  "collected (main overflowWorld) = [hugeReading, hugeReading] \<and>
   ieee_steps overflowWorld [hugeReading, hugeReading] \<and>
   ieee_value (float64_decode (Temp (Main hugeReading))) = Some (5010420900022432 * 2 ^ 971) \<and>
   printed (main overflowWorld)
     = [AverageTemperatureIn ''London'', TemperatureLine float64_inf] \<and>
   float64_decode float64_inf = Infinity False \<and>
   ieee_value (float64_decode float64_inf) = None"
proof -
  have run: "collected (main overflowWorld) = [hugeReading, hugeReading] \<and>
      printed (main overflowWorld)
        = [AverageTemperatureIn ''London'', TemperatureLine float64_inf]"
    by (simp add: overflowWorld_def hugeAdd_def hugeDiv_def hugeBody_def hugeReading_def
          hugeCacheText_def float64_1e308_def float64_inf_def model_defs world_defs)
  have steps: "ieee_steps overflowWorld [hugeReading, hugeReading]"
    by (simp add: ieee_steps_def overflowWorld_def onlineWorld_def offlineWorld_def hugeAdd_def
          hugeDiv_def exampleOfInt_def hugeReading_def float64_1e308_def float64_inf_def
          float64_2_def float64_NaN_def float64_decode_def) code_simp
  have vals: "ieee_value (float64_decode (Temp (Main hugeReading)))
                  = Some (5010420900022432 * 2 ^ 971)"
    "float64_decode float64_inf = Infinity False"
    "ieee_value (float64_decode float64_inf) = None"
    by (simp_all add: hugeReading_def float64_1e308_def float64_inf_def float64_decode_def
          ieee_value_def)
  from run steps vals show ?thesis by simp
qed

text \<open>
  C3, amended. When a reading was collected and the machine's \<^verbatim>\<open>float64\<close> operations
  are those of IEEE 754, the run prints one temperature line, and its value is the
  IEEE 754 quotient of the IEEE 754 sum of the readings' temperatures, added to 0 in
  the order collected, by their number, each operation rounded to nearest and infinite
  on overflow. With one reading it is that reading's temperature, bit for bit, unless
  that is not a number; the negative zero is reported as zero. With two readings of 10
  and 20 it is 15.
\<close>

theorem reported_temperature_is_float64_mean:
  assumes "collected (main w) \<noteq> []" and "ieee_steps w (collected (main w))"
  shows "\<exists>t. [t. TemperatureLine t \<leftarrow> printed (main w)] = [t] \<and>
             float64_decode t
               = ieee_avg (map (\<lambda>d. float64_decode (Temp (Main d))) (collected (main w))) \<and>
             (\<forall>d. collected (main w) = [d] \<and> float64_decode (Temp (Main d)) \<noteq> NaN
                    \<and> float64_decode (Temp (Main d)) \<noteq> Finite True 0 (- 1074) \<longrightarrow>
                  t = Temp (Main d)) \<and>
             (\<forall>d. collected (main w) = [d]
                    \<and> float64_decode (Temp (Main d)) = Finite True 0 (- 1074) \<longrightarrow>
                  t = 0) \<and>
             (\<forall>a b. collected (main w) = [a, b] \<and> Temp (Main a) = float64_10
                      \<and> Temp (Main b) = float64_20 \<longrightarrow>
                  t = float64_15)"
proof -
  let ?xs = "collected (main w)"
  let ?t = "avgTemp w ?xs"
  from printed_after_fetch [OF refl assms(1)] obtain saveErr where
    "printed (main w) =
       errorLine ErrorLoadingCache (snd (loadedCache w))
         @ [AverageTemperatureIn (Name (hd ?xs)), TemperatureLine ?t]
         @ errorLine ErrorSavingCache saveErr" ..
  then have line: "[t. TemperatureLine t \<leftarrow> printed (main w)] = [?t]"
    by (simp add: errorLine_def split: option.splits)
  have avg: "float64_decode ?t = ieee_avg (map (\<lambda>d. float64_decode (Temp (Main d))) ?xs)"
    using assms(2) by (rule ieee_steps_avgTemp)
  have one: "?t = Temp (Main d)"
    if "?xs = [d] \<and> float64_decode (Temp (Main d)) \<noteq> NaN
          \<and> float64_decode (Temp (Main d)) \<noteq> Finite True 0 (- 1074)" for d
  proof -
    from that avg have "float64_decode ?t = float64_decode (Temp (Main d))"
      by (simp add: ieee_avg_single float64_decode_valid)
    with that show ?thesis
      by (intro float64_decode_inject) simp_all
  qed
  have zero: "?t = 0"
    if "?xs = [d] \<and> float64_decode (Temp (Main d)) = Finite True 0 (- 1074)" for d
  proof -
    have "ieee_valid (float64_decode (Temp (Main d)))"
      by (rule float64_decode_valid)
    with that avg have "float64_decode ?t = float64_decode 0"
      by (simp add: ieee_avg_single float64_decode_0)
    then show ?thesis
      by (intro float64_decode_inject) (simp_all add: float64_decode_0)
  qed
  have fifteen: "ieee_avg [float64_decode float64_10, float64_decode float64_20]
                   = float64_decode float64_15"
    by (simp add: float64_10_def float64_15_def float64_20_def float64_decode_def) code_simp
  have two: "?t = float64_15"
    if "?xs = [a, b] \<and> Temp (Main a) = float64_10 \<and> Temp (Main b) = float64_20" for a b
  proof -
    from that avg fifteen have "float64_decode ?t = float64_decode float64_15"
      by simp
    moreover have "float64_decode float64_15 \<noteq> NaN"
      by (simp add: float64_15_def float64_decode_def)
    ultimately show ?thesis
      by (intro float64_decode_inject) simp_all
  qed
  from line avg one zero two show ?thesis by blast
qed

theorem reported_temperature_is_float64_mean_witness:
  "collected (main firstProviderWorld) = [rainReading] \<and>
   ieee_steps firstProviderWorld [rainReading] \<and>
   [t. TemperatureLine t \<leftarrow> printed (main firstProviderWorld)] = [float64_10] \<and>
   collected (main twoReadingsWorld) = [rainReading, clearReading] \<and>
   ieee_steps twoReadingsWorld [rainReading, clearReading] \<and>
   [t. TemperatureLine t \<leftarrow> printed (main twoReadingsWorld)] = [float64_15]"
proof -
  have one: "collected (main firstProviderWorld) = [rainReading]"
    by (simp add: model_defs world_defs)
  have two: "collected (main twoReadingsWorld) = [rainReading, clearReading]"
    by (simp add: model_defs world_defs)
  have steps1: "ieee_steps firstProviderWorld [rainReading]"
    by (simp add: ieee_steps_def world_defs float64_decode_def) code_simp
  have steps2: "ieee_steps twoReadingsWorld [rainReading, clearReading]"
    by (simp add: ieee_steps_def world_defs float64_decode_def) code_simp
  have temps: "Temp (Main rainReading) = float64_10" "Temp (Main clearReading) = float64_20"
    "float64_decode float64_10 \<noteq> NaN" "float64_decode float64_10 \<noteq> Finite True 0 (- 1074)"
    by (simp_all add: rainReading_def clearReading_def float64_10_def float64_decode_def)
  from one steps1 have "collected (main firstProviderWorld) \<noteq> []"
    "ieee_steps firstProviderWorld (collected (main firstProviderWorld))" by simp_all
  from reported_temperature_is_float64_mean [OF this] one temps
  have "[t. TemperatureLine t \<leftarrow> printed (main firstProviderWorld)] = [float64_10]"
    by force
  moreover from two steps2 have "collected (main twoReadingsWorld) \<noteq> []"
    "ieee_steps twoReadingsWorld (collected (main twoReadingsWorld))" by simp_all
  from reported_temperature_is_float64_mean [OF this] two temps
  have "[t. TemperatureLine t \<leftarrow> printed (main twoReadingsWorld)] = [float64_15]"
    by force
  ultimately show ?thesis using one two steps1 steps2 by simp
qed

subsection \<open>Saving the cache\<close>




subsection \<open>Updating the cache\<close>

text \<open>
  C8. The cache file holds the empty object: it is loaded without error, as a cache
  with a nil map and the zero timestamp, and it is stale. The first provider answers,
  so a reading is collected and the average is printed; then line 112 assigns into the
  nil map and the run panics. No entry is inserted, the timestamp is not set and no
  file is written, where the claim has the entry of the city inserted and the
  timestamp set once a fetch has succeeded. Lines 109 to 111 make a map only when no
  cache was loaded.
\<close>

theorem fetch_into_nil_map_panics:
  "loadedCache emptyObjectCacheWorld = (Some \<lparr>Data = NilMap, Timestamp = zeroTime\<rparr>, None) \<and>
   answersFromCache emptyObjectCacheWorld = None \<and>
   owmResult emptyObjectCacheWorld exampleConfig = Inr rainReading \<and>
   collected (main emptyObjectCacheWorld) = [rainReading] \<and>
   printed (main emptyObjectCacheWorld)
     = [AverageTemperatureIn ''London'', TemperatureLine float64_10] \<and>
   outcome (main emptyObjectCacheWorld) = Panic AssignmentToNilMap \<and>
   cacheVar (main emptyObjectCacheWorld) = Some \<lparr>Data = NilMap, Timestamp = zeroTime\<rparr> \<and>
   filesAfter (main emptyObjectCacheWorld) = files emptyObjectCacheWorld"
  by (simp add: emptyObjectCacheWorld_def model_defs world_defs fresh_iff zeroTime_def)

text \<open>
  C9. Only the second provider answers; its answer decodes to \<^verbatim>\<open>WeatherData{}\<close>, and the
  run stores this reading unchanged as the entry of the city and saves the cache. The
  next run, five minutes later on the files that the first run left, loads that entry,
  makes no request, prints its name, temperature and humidity and panics on line 60,
  where the claim has the cache hit report the description too.
\<close>

theorem cached_reading_without_weather_panics_on_next_hit:
  "collected (main secondProviderWorld) = [zeroWeatherData] \<and>
   outcome (main secondProviderWorld) = Return \<and>
   cacheVar (main secondProviderWorld) = Some zeroCache \<and>
   mapIndex (Data zeroCache) (flagCity secondProviderWorld) = Some zeroWeatherData \<and>
   filesAfter (main secondProviderWorld) ''cache.json'' = Contents zeroCacheText \<and>
   files secondRunWorld = filesAfter (main secondProviderWorld) \<and>
   loadedCache secondRunWorld = (Some zeroCache, None) \<and>
   answersFromCache secondRunWorld = Some zeroWeatherData \<and>
   netCalls (main secondRunWorld) = [] \<and>
   printed (main secondRunWorld) = [WeatherFromCache [], TemperatureLine 0, HumidityLine 0] \<and>
   outcome (main secondRunWorld) = Panic IndexOutOfRange"
  by (simp add: secondRunWorld_def secondProviderWorld_def model_defs world_defs fresh_iff)

end
